theory Spec2Isabelle
  imports Main
begin

section \<open>Borrow-incentive builder: data model\<close>

text \<open>
  The module under study builds borrow-incentive calls (stake, unstake, claim) into a
  transaction block. It reads several things it does not define: the address registry
  (\<open>builder.address.get\<close>), the coin-type parser (\<open>builder.utils.parseCoinType\<close>), three
  imported constants, the helper \<open>requireSender\<close>, the query functions of \<open>../queries\<close>
  and the RPC client. All of them are fields of the record \<open>env\<close> below, so a theorem
  about an arbitrary \<open>e\<close> holds for whatever they return. The type \<open>'v\<close> is the veSCA
  record that \<open>getVeSca\<close> and \<open>getVeScas\<close> return.
\<close>

datatype error =
    NoPositionFound string
    \<comment> \<open>\<open>new Error(`No obligation found for sender ${sender}`)\<close>\<close>
  | BindingMismatch
    \<comment> \<open>\<open>new Error('Binded veScaKey is not equal to the provided veScaKey')\<close>\<close>
  | TypeError
    \<comment> \<open>a property read on \<open>undefined\<close> or \<open>null\<close>\<close>
  | OtherError string
    \<comment> \<open>an error thrown by code outside the module (\<open>requireSender\<close>)\<close>

text \<open>
  An optional parameter is a \<open>string option\<close>: \<open>None\<close> is \<open>undefined\<close>. A JavaScript
  condition \<open>if (x)\<close> on such a value holds for a non-empty string only.
\<close>

type_synonym sui_address_arg = "string option"

fun truthy :: "string option \<Rightarrow> bool" where
  "truthy None = False"
| "truthy (Some s) = (s \<noteq> [])"

text \<open>
  A queued transaction. An argument of a call is the object reference that
  \<open>txBlock.object\<close> made of an identifier, modelled by the identifier; an omitted
  \<open>typeArguments\<close> is the empty list. Transactions of another kind than \<open>MoveCall\<close>
  only carry their kind.
\<close>

datatype transaction =
    MoveCall (target: string) (arguments: "string list") (typeArguments: "string list")
  | OtherTransaction string

fun is_MoveCall :: "transaction \<Rightarrow> bool" where
  "is_MoveCall (MoveCall t a ty) = True"
| "is_MoveCall (OtherTransaction k) = False"

record txblock =
  sender :: "string option"
  transactions :: "transaction list"

text \<open>The queries a call issues, in order: the observable reads of on-chain state.\<close>

datatype json =
    JUndefined
  | JNull
  | JBool bool
  | JNumber int
  | JString string
  | JArray "json list"
  | JObject "(string \<times> json) list"

datatype rpc =
    GetObligations string
  | GetObligationLocked string
  | GetVeSca string
  | GetVeScas string
  | GetBindedVeScaKey string
  | GetObject string
  | GetDynamicFieldObject json string string

record obligation =
  id_obligation :: string
  keyId :: string
  locked :: bool

datatype sui_parsed_data =
    MoveObject json
    \<comment> \<open>\<open>{dataType: 'moveObject', fields}\<close>\<close>
  | Package
    \<comment> \<open>\<open>{dataType: 'package'}\<close>\<close>

record sui_object_data =
  content :: "sui_parsed_data option"

record sui_object_response =
  data :: "sui_object_data option"

record 'v env =
  address_get :: "string \<Rightarrow> string"
  parseCoinType :: "string \<Rightarrow> string"
  OLD_BORROW_INCENTIVE_PROTOCOL_ID :: string
  SUI_CLOCK_OBJECT_ID :: string
  SUI_TYPE_ARG :: string
  requireSender :: "txblock \<Rightarrow> error + string"
  getObligations :: "string \<Rightarrow> obligation list"
  getObligationLocked :: "string \<Rightarrow> bool"
  getVeSca :: "string \<Rightarrow> 'v option"
  getVeScas :: "string \<Rightarrow> 'v list"
  getBindedVeScaKey :: "string \<Rightarrow> string option"
  client_getObject :: "string \<Rightarrow> sui_object_response"
  client_getDynamicFieldObject :: "json \<Rightarrow> string \<Rightarrow> string \<Rightarrow> sui_object_response"

section \<open>Normal methods (generateBorrowIncentiveNormalMethod)\<close>

text \<open>\<open>borrowIncentiveIds\<close>: the identifiers of the current generation, from the registry.\<close>

definition borrowIncentivePkg :: "'v env \<Rightarrow> string" where
  "borrowIncentivePkg e = address_get e ''borrowIncentive.id''"

definition incentivePools :: "'v env \<Rightarrow> string" where
  "incentivePools e = address_get e ''borrowIncentive.incentivePools''"

definition incentiveAccounts :: "'v env \<Rightarrow> string" where
  "incentiveAccounts e = address_get e ''borrowIncentive.incentiveAccounts''"

definition obligationAccessStore :: "'v env \<Rightarrow> string" where
  "obligationAccessStore e = address_get e ''core.obligationAccessStore''"

definition borrowIncentive_config :: "'v env \<Rightarrow> string" where
  "borrowIncentive_config e = address_get e ''borrowIncentive.config''"

text \<open>\<open>OldBorrowIncentiveContract\<close>: the hard-coded identifiers of the legacy generation.\<close>

definition OldBorrowIncentiveContract_id :: string where
  "OldBorrowIncentiveContract_id =
     ''0xc63072e7f5f4983a2efaf5bdba1480d5e7d74d57948e1c7cc436f8e22cbeb410''"

definition OldBorrowIncentiveContract_incentivePools :: string where
  "OldBorrowIncentiveContract_incentivePools =
     ''0x64972b713ccec45ec3964809e477cea6f97350c0c50ca3aec85bb631639266ec''"

definition OldBorrowIncentiveContract_incentiveAccounts :: string where
  "OldBorrowIncentiveContract_incentiveAccounts =
     ''0x3c0b707068bdcea8bb859d751ad3e2149a9f83c13fcf4054ef91372a00bccdd3''"

text \<open>\<open>veScaIds\<close>.\<close>

definition veScaIds_table :: "'v env \<Rightarrow> string" where
  "veScaIds_table e = address_get e ''vesca.table''"

definition veScaIds_treasury :: "'v env \<Rightarrow> string" where
  "veScaIds_treasury e = address_get e ''vesca.treasury''"

definition veScaIds_config :: "'v env \<Rightarrow> string" where
  "veScaIds_config e = address_get e ''vesca.config''"

text \<open>
  \<open>txBlock.moveCall\<close> appends one call to the block and returns a handle to its result,
  here the index of the call in the block.
\<close>

definition moveCall :: "transaction \<Rightarrow> txblock \<Rightarrow> nat \<times> txblock" where
  "moveCall c tx = (length (transactions tx), tx\<lparr>transactions := transactions tx @ [c]\<rparr>)"

text \<open>
  \<open>txBlock.object(value)\<close> of the transaction library makes an object reference of an
  identifier. Given \<open>undefined\<close> it throws a TypeError (it reads a property of its
  argument). The arguments of a call are evaluated in order before \<open>moveCall\<close> runs, so
  a call with an \<open>undefined\<close> identifier is never queued.
\<close>

definition txBlock_object :: "sui_address_arg \<Rightarrow> error + string" where
  "txBlock_object v = (case v of None \<Rightarrow> Inl TypeError | Some s \<Rightarrow> Inr s)"

fun objects :: "sui_address_arg list \<Rightarrow> error + string list" where
  "objects [] = Inr []"
| "objects (v # vs) =
     (case txBlock_object v of
        Inl err \<Rightarrow> Inl err
      | Inr x \<Rightarrow> (case objects vs of Inl err \<Rightarrow> Inl err | Inr xs \<Rightarrow> Inr (x # xs)))"

definition stakeObligation ::
  "'v env \<Rightarrow> sui_address_arg \<Rightarrow> sui_address_arg \<Rightarrow> txblock \<Rightarrow> error + txblock" where
  "stakeObligation e obligationId obligationKey tx =
     (case objects
          [Some (borrowIncentive_config e),
           Some (incentivePools e),
           Some (incentiveAccounts e),
           obligationKey,
           obligationId,
           Some (obligationAccessStore e),
           Some (SUI_CLOCK_OBJECT_ID e)] of
        Inl err \<Rightarrow> Inl err
      | Inr args \<Rightarrow>
          Inr (snd (moveCall (MoveCall (borrowIncentivePkg e @ ''::user::stake'') args []) tx)))"

definition stakeObligationWithVesca ::
  "'v env \<Rightarrow> sui_address_arg \<Rightarrow> sui_address_arg \<Rightarrow> sui_address_arg \<Rightarrow> txblock
     \<Rightarrow> error + txblock" where
  "stakeObligationWithVesca e obligationId obligationKey veScaKey tx =
     (case objects
          [Some (borrowIncentive_config e),
           Some (incentivePools e),
           Some (incentiveAccounts e),
           obligationKey,
           obligationId,
           Some (obligationAccessStore e),
           Some (veScaIds_config e),
           Some (veScaIds_treasury e),
           Some (veScaIds_table e),
           veScaKey,
           Some (SUI_CLOCK_OBJECT_ID e)] of
        Inl err \<Rightarrow> Inl err
      | Inr args \<Rightarrow>
          Inr (snd (moveCall
            (MoveCall (borrowIncentivePkg e @ ''::user::stake_with_ve_sca'') args []) tx)))"

definition unstakeObligation ::
  "'v env \<Rightarrow> sui_address_arg \<Rightarrow> sui_address_arg \<Rightarrow> txblock \<Rightarrow> error + txblock" where
  "unstakeObligation e obligationId obligationKey tx =
     (case objects
          [Some (borrowIncentive_config e),
           Some (incentivePools e),
           Some (incentiveAccounts e),
           obligationKey,
           obligationId,
           Some (SUI_CLOCK_OBJECT_ID e)] of
        Inl err \<Rightarrow> Inl err
      | Inr args \<Rightarrow>
          Inr (snd (moveCall (MoveCall (borrowIncentivePkg e @ ''::user::unstake'') args []) tx)))"

definition oldUnstakeObligation ::
  "'v env \<Rightarrow> sui_address_arg \<Rightarrow> sui_address_arg \<Rightarrow> txblock \<Rightarrow> error + txblock" where
  "oldUnstakeObligation e obligationId obligationKey tx =
     (case objects
          [Some OldBorrowIncentiveContract_incentivePools,
           Some OldBorrowIncentiveContract_incentiveAccounts,
           obligationKey,
           obligationId,
           Some (SUI_CLOCK_OBJECT_ID e)] of
        Inl err \<Rightarrow> Inl err
      | Inr args \<Rightarrow>
          Inr (snd (moveCall
            (MoveCall (borrowIncentivePkg e @ ''::user::unstake'') args [SUI_TYPE_ARG e]) tx)))"

definition claimBorrowIncentive ::
  "'v env \<Rightarrow> sui_address_arg \<Rightarrow> sui_address_arg \<Rightarrow> string \<Rightarrow> txblock
     \<Rightarrow> error + nat \<times> txblock" where
  "claimBorrowIncentive e obligationId obligationKey rewardCoinName tx =
     (let rewardType = parseCoinType e rewardCoinName
      in case objects
          [Some (borrowIncentive_config e),
           Some (incentivePools e),
           Some (incentiveAccounts e),
           obligationKey,
           obligationId,
           Some (SUI_CLOCK_OBJECT_ID e)] of
        Inl err \<Rightarrow> Inl err
      | Inr args \<Rightarrow>
          Inr (moveCall
            (MoveCall (borrowIncentivePkg e @ ''::user::redeem_rewards'') args [rewardType]) tx))"

definition oldClaimBorrowIncentive ::
  "'v env \<Rightarrow> sui_address_arg \<Rightarrow> sui_address_arg \<Rightarrow> string \<Rightarrow> txblock
     \<Rightarrow> error + nat \<times> txblock" where
  "oldClaimBorrowIncentive e obligationId obligationKey rewardCoinName tx =
     (let rewardType = parseCoinType e rewardCoinName
      in case objects
          [Some OldBorrowIncentiveContract_incentivePools,
           Some OldBorrowIncentiveContract_incentiveAccounts,
           obligationKey,
           obligationId,
           Some (SUI_CLOCK_OBJECT_ID e)] of
        Inl err \<Rightarrow> Inl err
      | Inr args \<Rightarrow>
          Inr (moveCall
            (MoveCall (OldBorrowIncentiveContract_id @ ''::user::redeem_rewards'') args
               [rewardType]) tx))"

section \<open>Resolvers\<close>

text \<open>
  \<open>requireVeSca\<close>. The test \<open>params.length === 3 && veScaKey && typeof veScaKey === 'string'\<close>
  is \<open>truthy veScaKey\<close>: a truthy third parameter makes the length three, and a value of
  this model's parameter type that is truthy is a string. Each resolver returns its
  outcome together with the queries it issued.
\<close>

definition requireVeSca ::
  "'v env \<Rightarrow> txblock \<Rightarrow> sui_address_arg \<Rightarrow> (error + 'v option) \<times> rpc list" where
  "requireVeSca e txBlock veScaKey =
     (if truthy veScaKey then
        (case getVeSca e (the veScaKey) of
           None \<Rightarrow> (Inr None, [GetVeSca (the veScaKey)])
         | Some veSca \<Rightarrow> (Inr (Some veSca), [GetVeSca (the veScaKey)]))
      else
        (case requireSender e txBlock of
           Inl err \<Rightarrow> (Inl err, [])
         | Inr sender' \<Rightarrow>
             (case getVeScas e sender' of
                [] \<Rightarrow> (Inr None, [GetVeScas sender'])
              | veSca # rest \<Rightarrow> (Inr (Some veSca), [GetVeScas sender']))))"





text \<open>
  \<open>requireObligationInfo\<close>. As in \<open>requireVeSca\<close>, the length and \<open>typeof\<close> tests follow from
  the truthiness of the two optional parameters. \<open>matches\<close> is the callback of \<open>find\<close>.
\<close>

record obligation_info =
  obligationId :: string
  obligationKey :: string
  obligationLocked :: bool

definition matches :: "sui_address_arg \<Rightarrow> sui_address_arg \<Rightarrow> obligation \<Rightarrow> bool" where
  "matches oid okey ob \<longleftrightarrow> Some (id_obligation ob) = oid \<or> Some (keyId ob) = okey"

definition info_of :: "obligation \<Rightarrow> obligation_info" where
  "info_of selectedObligation =
     \<lparr>obligationId = id_obligation selectedObligation,
      obligationKey = keyId selectedObligation,
      obligationLocked = locked selectedObligation\<rparr>"

definition requireObligationInfo ::
  "'v env \<Rightarrow> txblock \<Rightarrow> sui_address_arg \<Rightarrow> sui_address_arg
     \<Rightarrow> (error + obligation_info) \<times> rpc list" where
  "requireObligationInfo e txBlock oid okey =
     (if truthy oid \<and> truthy okey then
        (Inr \<lparr>obligationId = the oid, obligationKey = the okey,
              obligationLocked = getObligationLocked e (the oid)\<rparr>,
         [GetObligationLocked (the oid)])
      else
        (case requireSender e txBlock of
           Inl err \<Rightarrow> (Inl err, [])
         | Inr sender' \<Rightarrow>
             (let obligations = getObligations e sender'
              in if obligations = [] then (Inl (NoPositionFound sender'), [GetObligations sender'])
                 else
                   (let selectedObligation =
                          (case find (matches oid okey) obligations of
                             Some ob \<Rightarrow> ob
                           | None \<Rightarrow> hd obligations)
                    in (Inr (info_of selectedObligation), [GetObligations sender'])))))"

section \<open>Quick methods (generateBorrowIncentiveQuickMethod)\<close>

text \<open>
  The callback that looks for an unstake call queued in the block: a \<open>MoveCall\<close> whose
  target is the unstake function of the legacy or of the current package.
\<close>

definition unstake_target :: "'v env \<Rightarrow> transaction \<Rightarrow> bool" where
  "unstake_target e txn \<longleftrightarrow>
     is_MoveCall txn \<and>
     (target txn = OLD_BORROW_INCENTIVE_PROTOCOL_ID e @ ''::user::unstake'' \<or>
      target txn = address_get e ''borrowIncentive.id'' @ ''::user::unstake'')"

text \<open>
  In \<open>stakeObligationWithVeScaQuick\<close> the callback is declared \<open>async\<close>: it returns a
  Promise, and \<open>find\<close> tests the Promise object itself, which is truthy whatever it
  settles to.
\<close>

definition promise_truthy :: "bool \<Rightarrow> bool" where
  "promise_truthy settled = True"

text \<open>
  A quick method returns its outcome, the block as it leaves it, and the queries issued.
  An error thrown by a builder leaves the transactions of the block as they were.
\<close>

definition stakeObligationQuick ::
  "'v env \<Rightarrow> txblock \<Rightarrow> sui_address_arg \<Rightarrow> sui_address_arg
     \<Rightarrow> (error + unit) \<times> txblock \<times> rpc list" where
  "stakeObligationQuick e txBlock obligation obligationKey' =
     (case requireObligationInfo e txBlock obligation obligationKey' of
        (Inl err, queries) \<Rightarrow> (Inl err, txBlock, queries)
      | (Inr info, queries) \<Rightarrow>
          (let unstakeObligationBeforeStake =
                 (find (unstake_target e) (transactions txBlock) \<noteq> None)
           in if \<not> obligationLocked info \<or> unstakeObligationBeforeStake then
                (case stakeObligation e (Some (obligationId info)) (Some (obligationKey info))
                        txBlock of
                   Inl err \<Rightarrow> (Inl err, txBlock, queries)
                 | Inr txBlock' \<Rightarrow> (Inr (), txBlock', queries))
              else (Inr (), txBlock, queries)))"

definition unstakeObligationQuick ::
  "'v env \<Rightarrow> txblock \<Rightarrow> sui_address_arg \<Rightarrow> sui_address_arg
     \<Rightarrow> (error + unit) \<times> txblock \<times> rpc list" where
  "unstakeObligationQuick e txBlock obligation obligationKey' =
     (case requireObligationInfo e txBlock obligation obligationKey' of
        (Inl err, queries) \<Rightarrow> (Inl err, txBlock, queries)
      | (Inr info, queries) \<Rightarrow>
          (if obligationLocked info then
             (case unstakeObligation e (Some (obligationId info)) (Some (obligationKey info))
                     txBlock of
                Inl err \<Rightarrow> (Inl err, txBlock, queries)
              | Inr txBlock' \<Rightarrow> (Inr (), txBlock', queries))
           else (Inr (), txBlock, queries)))"

definition stakeObligationWithVeScaQuick ::
  "'v env \<Rightarrow> txblock \<Rightarrow> sui_address_arg \<Rightarrow> sui_address_arg \<Rightarrow> sui_address_arg
     \<Rightarrow> (error + unit) \<times> txblock \<times> rpc list" where
  "stakeObligationWithVeScaQuick e txBlock obligation obligationKey' veScaKey =
     (case requireObligationInfo e txBlock obligation obligationKey' of
        (Inl err, queries) \<Rightarrow> (Inl err, txBlock, queries)
      | (Inr info, queries) \<Rightarrow>
          (let unstakeObligationBeforeStake =
                 (find (\<lambda>txn. promise_truthy (unstake_target e txn)) (transactions txBlock)
                    \<noteq> None)
           in if \<not> obligationLocked info \<or> unstakeObligationBeforeStake then
                (let bindedVeScaKey = getBindedVeScaKey e (obligationId info);
                     queries' = queries @ [GetBindedVeScaKey (obligationId info)]
                 in if truthy veScaKey \<and> veScaKey \<noteq> bindedVeScaKey then
                      (Inl BindingMismatch, txBlock, queries')
                    else if truthy bindedVeScaKey then
                      (case stakeObligationWithVesca e (Some (obligationId info))
                              (Some (obligationKey info)) bindedVeScaKey txBlock of
                         Inl err \<Rightarrow> (Inl err, txBlock, queries')
                       | Inr txBlock' \<Rightarrow> (Inr (), txBlock', queries'))
                    else
                      (case stakeObligation e (Some (obligationId info))
                              (Some (obligationKey info)) txBlock of
                         Inl err \<Rightarrow> (Inl err, txBlock, queries')
                       | Inr txBlock' \<Rightarrow> (Inr (), txBlock', queries')))
              else (Inr (), txBlock, queries)))"

definition claimBorrowIncentiveQuick ::
  "'v env \<Rightarrow> txblock \<Rightarrow> string \<Rightarrow> sui_address_arg \<Rightarrow> sui_address_arg
     \<Rightarrow> error + nat \<times> txblock" where
  "claimBorrowIncentiveQuick e txBlock rewardCoinName obligation obligationKey' =
     claimBorrowIncentive e obligation obligationKey' rewardCoinName txBlock"

section \<open>Notions used in the statements\<close>

text \<open>
  An unstake call: a \<open>MoveCall\<close> whose target is the function \<open>unstake\<close> of module \<open>user\<close>
  of the legacy package or of the registry's current package. \<open>unstake_call_queued\<close> says
  that the block holds one, for whichever position; \<open>unstake_call_for\<close> says that an
  unstake call is for a given position: its arguments hold the position's key and id.
\<close>

fun unstake_call :: "'v env \<Rightarrow> transaction \<Rightarrow> bool" where
  "unstake_call e (MoveCall t args tys) \<longleftrightarrow>
     t = OLD_BORROW_INCENTIVE_PROTOCOL_ID e @ ''::user::unstake'' \<or>
     t = address_get e ''borrowIncentive.id'' @ ''::user::unstake''"
| "unstake_call e (OtherTransaction k) \<longleftrightarrow> False"

definition unstake_call_queued :: "'v env \<Rightarrow> txblock \<Rightarrow> bool" where
  "unstake_call_queued e tx \<longleftrightarrow> list_ex (unstake_call e) (transactions tx)"

definition unstake_call_for :: "'v env \<Rightarrow> obligation_info \<Rightarrow> transaction \<Rightarrow> bool" where
  "unstake_call_for e info txn \<longleftrightarrow>
     unstake_call e txn \<and> obligationKey info \<in> set (arguments txn)
     \<and> obligationId info \<in> set (arguments txn)"


section \<open>Intention codec\<close>

text \<open>
  Modelled from the spec: the intention classes (\<open>MintIntention\<close>, \<open>RedeemIntention\<close>), their
  \<open>serialize\<close>, the transaction builder and \<open>StSuiHelper.deserialize\<close> are not among the
  sources; only their tests are. The definitions of this section follow the spec's
  description of the codec. An intent is an action kind with the one field the tests
  supply, \<open>amount\<close>. \<open>encode\<close> writes the user-supplied field as a key-ordered textual
  mapping, the value a quoted string in which the quote and the backslash are escaped.
  \<open>buildFrom\<close> reads the encoding back and queues the call of the action kind, with the
  amount as its argument; the targets of the kinds are a parameter. \<open>decode\<close> identifies
  the action kind by matching the call's target and shape against the known variants and
  takes the amount out of the argument list; an unrecognised target is
  \<open>UnknownIntention\<close>.
\<close>

datatype action_kind = Mint | Redeem

record intent =
  action :: action_kind
  amount :: string

datatype codec_error = UnknownIntention | MalformedEncoding

fun json_escape :: "string \<Rightarrow> string" where
  "json_escape [] = []"
| "json_escape (c # cs) =
     (if c = CHR 0x22 \<or> c = CHR 0x5C then CHR 0x5C # c # json_escape cs
      else c # json_escape cs)"

definition encode :: "intent \<Rightarrow> string" where
  \<comment> \<open>Modelled from the spec: the canonical encoding of the minimal fields.\<close>
  \<open>encode x = ''{"amount":"'' @ json_escape (amount x) @ ''"}''\<close>

fun json_unescape :: "string \<Rightarrow> (string \<times> string) option" where
  "json_unescape [] = None"
| "json_unescape (c # cs) =
     (if c = CHR 0x22 then Some ([], cs)
      else if c = CHR 0x5C then
        (case cs of
           [] \<Rightarrow> None
         | d # ds \<Rightarrow> map_option (\<lambda>(s, rest). (d # s, rest)) (json_unescape ds))
      else map_option (\<lambda>(s, rest). (c # s, rest)) (json_unescape cs))"

definition parse_amount :: "string \<Rightarrow> string option" where
  \<open>parse_amount enc =
     (if take 11 enc = ''{"amount":"'' then
        (case json_unescape (drop 11 enc) of
           Some (a, rest) \<Rightarrow> if rest = ''}'' then Some a else None
         | None \<Rightarrow> None)
      else None)\<close>

definition buildFrom ::
  "(action_kind \<Rightarrow> string) \<Rightarrow> action_kind \<Rightarrow> string \<Rightarrow> codec_error + txblock" where
  \<comment> \<open>Modelled from the spec: the batch built from an encoded intent.\<close>
  "buildFrom target_of k enc =
     (case parse_amount enc of
        None \<Rightarrow> Inl MalformedEncoding
      | Some a \<Rightarrow> Inr \<lparr>sender = None, transactions = [MoveCall (target_of k) [a] []]\<rparr>)"

fun decode_call :: "(action_kind \<Rightarrow> string) \<Rightarrow> transaction \<Rightarrow> codec_error + intent" where
  "decode_call target_of (MoveCall t [a] []) =
     (case find (\<lambda>k. target_of k = t) [Mint, Redeem] of
        Some k \<Rightarrow> Inr \<lparr>action = k, amount = a\<rparr>
      | None \<Rightarrow> Inl UnknownIntention)"
| "decode_call target_of c = Inl UnknownIntention"

definition decode :: "(action_kind \<Rightarrow> string) \<Rightarrow> txblock \<Rightarrow> codec_error + intent" where
  \<comment> \<open>Modelled from the spec: the intent recovered from a built batch.\<close>
  "decode target_of tx =
     (case transactions tx of
        [c] \<Rightarrow> decode_call target_of c
      | _ \<Rightarrow> Inl UnknownIntention)"

section \<open>A concrete environment\<close>

text \<open>
  The environment of the concrete evaluations. The registry maps a key \<open>k\<close> to the
  identifier \<open><k>\<close>. The owner \<open>0xA\<close> holds two positions: \<open>0xP\<close> (key \<open>0xK\<close>, locked,
  bound to the veSCA key \<open>0xV\<close>) and \<open>0xQ\<close> (key \<open>0xL\<close>, unlocked, unbound); the owner
  \<open>0xB\<close> holds none.
\<close>

definition demo_address_get :: "string \<Rightarrow> string" where
  "demo_address_get k = ''<'' @ k @ ''>''"

definition demo_requireSender :: "txblock \<Rightarrow> error + string" where
  "demo_requireSender tx =
     (case sender tx of None \<Rightarrow> Inl (OtherError ''Sender is required'') | Some s \<Rightarrow> Inr s)"

definition demo_getObligations :: "string \<Rightarrow> obligation list" where
  "demo_getObligations owner =
     (if owner = ''0xA'' then
        [\<lparr>id_obligation = ''0xP'', keyId = ''0xK'', locked = True\<rparr>,
         \<lparr>id_obligation = ''0xQ'', keyId = ''0xL'', locked = False\<rparr>]
      else [])"

definition demo_response :: "json \<Rightarrow> sui_object_response" where
  "demo_response fs = \<lparr>data = Some \<lparr>content = Some (MoveObject fs)\<rparr>\<rparr>"

definition demo_env :: "string env" where
  "demo_env =
     \<lparr>address_get = demo_address_get,
      parseCoinType = (\<lambda>n. ''<coin '' @ n @ ''>''),
      OLD_BORROW_INCENTIVE_PROTOCOL_ID = ''0xOLD'',
      SUI_CLOCK_OBJECT_ID = ''0x6'',
      SUI_TYPE_ARG = ''0x2::sui::SUI'',
      requireSender = demo_requireSender,
      getObligations = demo_getObligations,
      getObligationLocked = (\<lambda>i. i = ''0xP''),
      getVeSca = (\<lambda>k. if k = ''0xV'' then Some ''veSCA of 0xV'' else None),
      getVeScas = (\<lambda>owner. if owner = ''0xA'' then [''veSCA of 0xV'', ''veSCA of 0xW''] else []),
      getBindedVeScaKey = (\<lambda>i. if i = ''0xP'' then Some ''0xV'' else None),
      client_getObject = (\<lambda>i. if i = ''<borrowIncentive.incentivePools>''
         then demo_response (JObject [(''ve_sca_bind'',
                JObject [(''fields'', JObject [(''id'', JObject [(''id'', JString ''0xT'')])])])])
         else \<lparr>data = None\<rparr>),
      client_getDynamicFieldObject = (\<lambda>parent ty k.
         if parent = JString ''0xT'' \<and> k = ''0xV''
         then demo_response (JObject [(''value'', JObject [(''fields'',
                JObject [(''id'', JString ''0xP'')])])])
         else \<lparr>data = None\<rparr>)\<rparr>"

definition demo_block :: txblock where
  "demo_block = \<lparr>sender = Some ''0xA'', transactions = []\<rparr>"

definition demo_target_of :: "action_kind \<Rightarrow> string" where
  "demo_target_of k = (case k of Mint \<Rightarrow> ''0xLST::liquid_staking::mint''
                       | Redeem \<Rightarrow> ''0xLST::liquid_staking::redeem'')"

text \<open>
  Calls in the concrete environment, for a position with key \<open>k\<close> and id \<open>i\<close>: the calls
  that \<open>unstakeObligation\<close> and \<open>stakeObligation\<close> queue, and an unstake call to the legacy
  package.
\<close>

definition demo_unstake :: "string \<Rightarrow> string \<Rightarrow> transaction" where
  "demo_unstake k i =
     MoveCall ''<borrowIncentive.id>::user::unstake''
       [''<borrowIncentive.config>'', ''<borrowIncentive.incentivePools>'',
        ''<borrowIncentive.incentiveAccounts>'', k, i, ''0x6'']
       []"

definition demo_legacy_unstake :: "string \<Rightarrow> string \<Rightarrow> transaction" where
  "demo_legacy_unstake k i =
     MoveCall ''0xOLD::user::unstake''
       [OldBorrowIncentiveContract_incentivePools,
        OldBorrowIncentiveContract_incentiveAccounts, k, i, ''0x6'']
       [''0x2::sui::SUI'']"

definition demo_stake :: "string \<Rightarrow> string \<Rightarrow> transaction" where
  "demo_stake k i =
     MoveCall ''<borrowIncentive.id>::user::stake''
       [''<borrowIncentive.config>'', ''<borrowIncentive.incentivePools>'',
        ''<borrowIncentive.incentiveAccounts>'', k, i, ''<core.obligationAccessStore>'',
        ''0x6'']
       []"

lemmas demo_calls = demo_unstake_def demo_legacy_unstake_def demo_stake_def

lemmas builder_simps = txBlock_object_def moveCall_def borrowIncentivePkg_def
  borrowIncentive_config_def incentivePools_def incentiveAccounts_def
  obligationAccessStore_def veScaIds_config_def veScaIds_treasury_def veScaIds_table_def

lemmas demo_simps = demo_env_def demo_address_get_def demo_requireSender_def
  demo_getObligations_def demo_block_def demo_response_def

section \<open>Properties of the builders\<close>

text \<open>
  Claim C8. The current-generation stake builder, given the resolved position with id
  \<open>0xP\<close> and key \<open>0xK\<close> and an empty batch, succeeds and appends exactly one call: its
  target is the registry's package followed by \<open>::user::stake\<close>, and its arguments are, in
  this order, config, incentivePools, incentiveAccounts, the key \<open>0xK\<close>, the id \<open>0xP\<close>,
  obligationAccessStore and the clock.
\<close>

theorem stakeObligation_wire_shape:
  "stakeObligation e (Some ''0xP'') (Some ''0xK'') \<lparr>sender = s, transactions = []\<rparr>
   = Inr \<lparr>sender = s, transactions =
       [MoveCall (address_get e ''borrowIncentive.id'' @ ''::user::stake'')
          [address_get e ''borrowIncentive.config'',
           address_get e ''borrowIncentive.incentivePools'',
           address_get e ''borrowIncentive.incentiveAccounts'',
           ''0xK'',
           ''0xP'',
           address_get e ''core.obligationAccessStore'',
           SUI_CLOCK_OBJECT_ID e]
          []]\<rparr>"
  by (simp add: stakeObligation_def builder_simps)

text \<open>
  Claim C7. Every queued call targets one protocol generation; in particular the target
  package of \<open>oldUnstakeObligation\<close> and its pool and accounts arguments belong to the same
  generation. The code does not do this. Evaluated in the concrete environment,
  \<open>oldUnstakeObligation\<close> queues a call whose target is the unstake function of the
  registry's (current) package, which is not the legacy package, while its first two
  arguments are the hard-coded legacy pools and accounts, which are not the registry's.
  Its sibling \<open>oldClaimBorrowIncentive\<close> targets the legacy package.
\<close>

theorem oldUnstakeObligation_mixes_generations:
  "oldUnstakeObligation demo_env (Some ''0xP'') (Some ''0xK'') demo_block
     = Inr (demo_block\<lparr>transactions :=
         [MoveCall (address_get demo_env ''borrowIncentive.id'' @ ''::user::unstake'')
            [OldBorrowIncentiveContract_incentivePools,
             OldBorrowIncentiveContract_incentiveAccounts,
             ''0xK'', ''0xP'', ''0x6'']
            [''0x2::sui::SUI'']]\<rparr>)
   \<and> address_get demo_env ''borrowIncentive.id'' \<noteq> OldBorrowIncentiveContract_id
   \<and> OldBorrowIncentiveContract_incentivePools \<noteq> incentivePools demo_env
   \<and> OldBorrowIncentiveContract_incentiveAccounts \<noteq> incentiveAccounts demo_env
   \<and> oldClaimBorrowIncentive demo_env (Some ''0xP'') (Some ''0xK'') ''sui'' demo_block
     = Inr (0, demo_block\<lparr>transactions :=
         [MoveCall (OldBorrowIncentiveContract_id @ ''::user::redeem_rewards'')
            [OldBorrowIncentiveContract_incentivePools,
             OldBorrowIncentiveContract_incentiveAccounts,
             ''0xK'', ''0xP'', ''0x6'']
            [''<coin sui>'']]\<rparr>)"
  by (simp add: oldUnstakeObligation_def oldClaimBorrowIncentive_def builder_simps demo_simps
      OldBorrowIncentiveContract_id_def OldBorrowIncentiveContract_incentivePools_def
      OldBorrowIncentiveContract_incentiveAccounts_def)

section \<open>Properties of the resolvers\<close>




text \<open>
  Claim C10. A veSCA key counts as supplied when it is a non-empty string, which is the
  code's own test. When a key is supplied, \<open>requireVeSca\<close> returns what the direct lookup
  of that key returns and its only query is that lookup; in particular, when the lookup
  finds no veSCA the result is \<open>undefined\<close> (\<open>None\<close>) and the sender's veSCA accounts are not
  enumerated. Whenever the enumeration is among the queries, no key was supplied; and
  with no key supplied the result is the first account of the sender, or \<open>undefined\<close> when
  the sender owns none.
\<close>

theorem requireVeSca_direct_lookup:
  "(k \<noteq> [] \<longrightarrow> requireVeSca e tx (Some k) = (Inr (getVeSca e k), [GetVeSca k]))
   \<and> (k \<noteq> [] \<and> getVeSca e k = None \<longrightarrow>
        requireVeSca e tx (Some k) = (Inr None, [GetVeSca k]))
   \<and> (\<forall>s. GetVeScas s \<in> set (snd (requireVeSca e tx key)) \<longrightarrow> \<not> truthy key)
   \<and> (\<not> truthy key \<and> requireSender e tx = Inr s \<longrightarrow>
        requireVeSca e tx key =
          (Inr (case getVeScas e s of [] \<Rightarrow> None | veSca # rest \<Rightarrow> Some veSca),
           [GetVeScas s]))"
proof (intro conjI impI allI)
  show "requireVeSca e tx (Some k) = (Inr (getVeSca e k), [GetVeSca k])" if "k \<noteq> []"
    using that by (simp add: requireVeSca_def split: option.splits)
  show "requireVeSca e tx (Some k) = (Inr None, [GetVeSca k])"
    if "k \<noteq> [] \<and> getVeSca e k = None"
    using that by (simp add: requireVeSca_def)
  show "\<not> truthy key" if "GetVeScas s \<in> set (snd (requireVeSca e tx key))" for s
  proof
    assume "truthy key"
    then have "snd (requireVeSca e tx key) = [GetVeSca (the key)]"
      by (simp add: requireVeSca_def split: option.splits)
    with that show False by simp
  qed
  show "requireVeSca e tx key =
          (Inr (case getVeScas e s of [] \<Rightarrow> None | veSca # rest \<Rightarrow> Some veSca),
           [GetVeScas s])"
    if "\<not> truthy key \<and> requireSender e tx = Inr s"
    using that by (simp add: requireVeSca_def split: list.splits)
qed

theorem requireVeSca_direct_lookup_witness:
  "requireVeSca demo_env demo_block (Some ''0xNone'') = (Inr None, [GetVeSca ''0xNone''])
   \<and> requireVeSca demo_env demo_block (Some ''0xV'')
       = (Inr (Some ''veSCA of 0xV''), [GetVeSca ''0xV''])
   \<and> requireVeSca demo_env demo_block None = (Inr (Some ''veSCA of 0xV''), [GetVeScas ''0xA''])
   \<and> requireVeSca demo_env (demo_block\<lparr>sender := Some ''0xB''\<rparr>) None
       = (Inr None, [GetVeScas ''0xB''])"
proof -
  let ?B = "demo_block\<lparr>sender := Some ''0xB''\<rparr>"
  have sA: "requireSender demo_env demo_block = Inr ''0xA''"
    by (simp add: demo_simps)
  have sB: "requireSender demo_env ?B = Inr ''0xB''"
    by (simp add: demo_simps)
  have a: "requireVeSca demo_env demo_block (Some ''0xNone'') = (Inr None, [GetVeSca ''0xNone''])"
    using requireVeSca_direct_lookup [where k = "''0xNone''" and e = demo_env and tx = demo_block]
    by (simp add: demo_simps)
  have b: "requireVeSca demo_env demo_block (Some ''0xV'')
       = (Inr (Some ''veSCA of 0xV''), [GetVeSca ''0xV''])"
    using requireVeSca_direct_lookup [where k = "''0xV''" and e = demo_env and tx = demo_block]
    by (simp add: demo_simps)
  have c: "requireVeSca demo_env demo_block None
       = (Inr (Some ''veSCA of 0xV''), [GetVeScas ''0xA''])"
    using requireVeSca_direct_lookup [where key = None and e = demo_env and tx = demo_block
        and s = "''0xA''"] sA
    by (simp add: demo_simps)
  have d: "requireVeSca demo_env ?B None = (Inr None, [GetVeScas ''0xB''])"
    using requireVeSca_direct_lookup [where key = None and e = demo_env and tx = ?B
        and s = "''0xB''"] sB
    by (simp add: demo_simps)
  from a b c d show ?thesis by blast
qed



section \<open>Properties of the quick methods\<close>

lemma unstake_target_unstake_call: "unstake_target e txn = unstake_call e txn"
  by (cases txn) (simp_all add: unstake_target_def)

lemma find_unstake_target:
  "(find (unstake_target e) (transactions tx) \<noteq> None) = unstake_call_queued e tx"
  by (auto simp: find_None_iff list_ex_iff unstake_call_queued_def unstake_target_unstake_call)

lemma unstake_call_for_queued:
  "list_ex (unstake_call_for e info) (transactions tx) \<Longrightarrow> unstake_call_queued e tx"
  by (auto simp: list_ex_iff unstake_call_queued_def unstake_call_for_def)

text \<open>
  Claim C1, as stated, fails for a locked position when the unstake call queued in the
  block is for another position. In the concrete environment the block holds the unstake
  call of the position \<open>0xQ\<close>, as \<open>unstakeObligation\<close> queues it; the caller's position
  resolves to \<open>0xP\<close>, which is locked, and no unstake call for \<open>0xP\<close> is queued. The claim
  says that nothing is appended; the code appends the stake call of \<open>0xP\<close>.
\<close>

theorem stakeObligationQuick_gate_counterexample:
  "unstakeObligation demo_env (Some ''0xQ'') (Some ''0xL'') demo_block
     = Inr (demo_block\<lparr>transactions := [demo_unstake ''0xL'' ''0xQ'']\<rparr>)
   \<and> requireObligationInfo demo_env
        (demo_block\<lparr>transactions := [demo_unstake ''0xL'' ''0xQ'']\<rparr>) None None
     = (Inr \<lparr>obligationId = ''0xP'', obligationKey = ''0xK'', obligationLocked = True\<rparr>,
        [GetObligations ''0xA''])
   \<and> \<not> list_ex
        (unstake_call_for demo_env
          \<lparr>obligationId = ''0xP'', obligationKey = ''0xK'', obligationLocked = True\<rparr>)
        [demo_unstake ''0xL'' ''0xQ'']
   \<and> stakeObligationQuick demo_env
        (demo_block\<lparr>transactions := [demo_unstake ''0xL'' ''0xQ'']\<rparr>) None None
     = (Inr (),
        demo_block\<lparr>transactions := [demo_unstake ''0xL'' ''0xQ'', demo_stake ''0xK'' ''0xP'']\<rparr>,
        [GetObligations ''0xA''])"
  by (simp add: stakeObligationQuick_def stakeObligation_def unstakeObligation_def
      requireObligationInfo_def matches_def info_of_def unstake_target_def
      unstake_call_for_def builder_simps demo_simps demo_calls)

text \<open>
  Claim C1, amended. Let \<open>stakeObligationQuick\<close> resolve the position to \<open>info\<close>. If the
  position is unlocked, or the block already holds an unstake call, a call to the unstake
  function of the legacy package or of the current package, for whichever position, then
  the operation succeeds and the block leaves with exactly one more call, the stake call
  of the position. Otherwise, the position being locked and no unstake call being queued,
  the block is unchanged.
\<close>

theorem stakeObligationQuick_gate:
  assumes "requireObligationInfo e tx ob obk = (Inr info, qs)"
  shows "(\<not> obligationLocked info \<or> unstake_call_queued e tx \<longrightarrow>
            stakeObligationQuick e tx ob obk =
              (Inr (),
               tx\<lparr>transactions := transactions tx @
                 [MoveCall (address_get e ''borrowIncentive.id'' @ ''::user::stake'')
                    [address_get e ''borrowIncentive.config'',
                     address_get e ''borrowIncentive.incentivePools'',
                     address_get e ''borrowIncentive.incentiveAccounts'',
                     obligationKey info,
                     obligationId info,
                     address_get e ''core.obligationAccessStore'',
                     SUI_CLOCK_OBJECT_ID e]
                    []]\<rparr>,
               qs))
       \<and> (obligationLocked info \<and> \<not> unstake_call_queued e tx \<longrightarrow>
            stakeObligationQuick e tx ob obk = (Inr (), tx, qs))"
proof (intro conjI impI)
  assume "\<not> obligationLocked info \<or> unstake_call_queued e tx"
  then have "\<not> obligationLocked info \<or> find (unstake_target e) (transactions tx) \<noteq> None"
    using find_unstake_target [of e tx] by blast
  then show "stakeObligationQuick e tx ob obk =
              (Inr (),
               tx\<lparr>transactions := transactions tx @
                 [MoveCall (address_get e ''borrowIncentive.id'' @ ''::user::stake'')
                    [address_get e ''borrowIncentive.config'',
                     address_get e ''borrowIncentive.incentivePools'',
                     address_get e ''borrowIncentive.incentiveAccounts'',
                     obligationKey info,
                     obligationId info,
                     address_get e ''core.obligationAccessStore'',
                     SUI_CLOCK_OBJECT_ID e]
                    []]\<rparr>,
               qs)"
    using assms
    by (simp add: stakeObligationQuick_def stakeObligation_def builder_simps)
next
  assume "obligationLocked info \<and> \<not> unstake_call_queued e tx"
  then have "obligationLocked info" and "find (unstake_target e) (transactions tx) = None"
    using find_unstake_target [of e tx] by auto
  then show "stakeObligationQuick e tx ob obk = (Inr (), tx, qs)"
    using assms by (simp add: stakeObligationQuick_def)
qed

theorem stakeObligationQuick_gate_witness:
  "stakeObligationQuick demo_env demo_block (Some ''0xQ'') None
     = (Inr (), demo_block\<lparr>transactions := [demo_stake ''0xL'' ''0xQ'']\<rparr>,
        [GetObligations ''0xA''])
   \<and> stakeObligationQuick demo_env
        (demo_block\<lparr>transactions := [demo_legacy_unstake ''0xK'' ''0xP'']\<rparr>) None None
     = (Inr (),
        demo_block\<lparr>transactions :=
          [demo_legacy_unstake ''0xK'' ''0xP'', demo_stake ''0xK'' ''0xP'']\<rparr>,
        [GetObligations ''0xA''])
   \<and> stakeObligationQuick demo_env
        (demo_block\<lparr>transactions := [demo_unstake ''0xK'' ''0xP'']\<rparr>) None None
     = (Inr (),
        demo_block\<lparr>transactions := [demo_unstake ''0xK'' ''0xP'', demo_stake ''0xK'' ''0xP'']\<rparr>,
        [GetObligations ''0xA''])
   \<and> stakeObligationQuick demo_env
        (demo_block\<lparr>transactions :=
          [OtherTransaction ''TransferObjects'', demo_stake ''0xL'' ''0xQ'']\<rparr>) None None
     = (Inr (),
        demo_block\<lparr>transactions :=
          [OtherTransaction ''TransferObjects'', demo_stake ''0xL'' ''0xQ'']\<rparr>,
        [GetObligations ''0xA''])
   \<and> stakeObligationQuick demo_env demo_block None None
     = (Inr (), demo_block, [GetObligations ''0xA''])"
proof -
  let ?P = "\<lparr>obligationId = ''0xP'', obligationKey = ''0xK'', obligationLocked = True\<rparr>"
  let ?Q = "\<lparr>obligationId = ''0xQ'', obligationKey = ''0xL'', obligationLocked = False\<rparr>"
  let ?legacy = "demo_block\<lparr>transactions := [demo_legacy_unstake ''0xK'' ''0xP'']\<rparr>"
  let ?current = "demo_block\<lparr>transactions := [demo_unstake ''0xK'' ''0xP'']\<rparr>"
  let ?other = "demo_block\<lparr>transactions :=
          [OtherTransaction ''TransferObjects'', demo_stake ''0xL'' ''0xQ'']\<rparr>"
  have rq: "requireObligationInfo demo_env demo_block (Some ''0xQ'') None
              = (Inr ?Q, [GetObligations ''0xA''])"
    by (simp add: requireObligationInfo_def demo_simps matches_def info_of_def)
  have rl: "requireObligationInfo demo_env ?legacy None None
              = (Inr ?P, [GetObligations ''0xA''])"
    by (simp add: requireObligationInfo_def demo_simps matches_def info_of_def)
  have rc: "requireObligationInfo demo_env ?current None None
              = (Inr ?P, [GetObligations ''0xA''])"
    by (simp add: requireObligationInfo_def demo_simps matches_def info_of_def)
  have ro: "requireObligationInfo demo_env ?other None None
              = (Inr ?P, [GetObligations ''0xA''])"
    by (simp add: requireObligationInfo_def demo_simps matches_def info_of_def)
  have rp: "requireObligationInfo demo_env demo_block None None
              = (Inr ?P, [GetObligations ''0xA''])"
    by (simp add: requireObligationInfo_def demo_simps matches_def info_of_def)
  have unlocked: "\<not> obligationLocked ?Q \<or> unstake_call_queued demo_env demo_block"
    by simp
  have legacy: "\<not> obligationLocked ?P \<or> unstake_call_queued demo_env ?legacy"
    by (simp add: unstake_call_queued_def demo_simps demo_calls)
  have current: "\<not> obligationLocked ?P \<or> unstake_call_queued demo_env ?current"
    by (simp add: unstake_call_queued_def demo_simps demo_calls)
  have other: "obligationLocked ?P \<and> \<not> unstake_call_queued demo_env ?other"
    by (simp add: unstake_call_queued_def demo_simps demo_calls)
  have empty: "obligationLocked ?P \<and> \<not> unstake_call_queued demo_env demo_block"
    by (simp add: unstake_call_queued_def demo_simps)
  have a: "stakeObligationQuick demo_env demo_block (Some ''0xQ'') None
     = (Inr (), demo_block\<lparr>transactions := [demo_stake ''0xL'' ''0xQ'']\<rparr>,
        [GetObligations ''0xA''])"
    using stakeObligationQuick_gate [OF rq, THEN conjunct1, THEN mp, OF unlocked]
    by (simp add: demo_simps demo_calls)
  have b: "stakeObligationQuick demo_env ?legacy None None
     = (Inr (),
        demo_block\<lparr>transactions :=
          [demo_legacy_unstake ''0xK'' ''0xP'', demo_stake ''0xK'' ''0xP'']\<rparr>,
        [GetObligations ''0xA''])"
    using stakeObligationQuick_gate [OF rl, THEN conjunct1, THEN mp, OF legacy]
    by (simp add: demo_simps demo_calls)
  have c: "stakeObligationQuick demo_env ?current None None
     = (Inr (),
        demo_block\<lparr>transactions := [demo_unstake ''0xK'' ''0xP'', demo_stake ''0xK'' ''0xP'']\<rparr>,
        [GetObligations ''0xA''])"
    using stakeObligationQuick_gate [OF rc, THEN conjunct1, THEN mp, OF current]
    by (simp add: demo_simps demo_calls)
  have d: "stakeObligationQuick demo_env ?other None None
     = (Inr (), ?other, [GetObligations ''0xA''])"
    using stakeObligationQuick_gate [OF ro, THEN conjunct2, THEN mp, OF other]
    by (simp add: demo_simps)
  have e: "stakeObligationQuick demo_env demo_block None None
     = (Inr (), demo_block, [GetObligations ''0xA''])"
    using stakeObligationQuick_gate [OF rp, THEN conjunct2, THEN mp, OF empty]
    by (simp add: demo_simps)
  from a b c d e show ?thesis by blast
qed

lemma find_promise_truthy:
  "(find (\<lambda>txn. promise_truthy (P txn)) txs \<noteq> None) = (txs \<noteq> [])"
  by (cases txs) (simp_all add: promise_truthy_def)

text \<open>
  Claim C3. \<open>stakeObligationWithVeScaQuick\<close> is gated like \<open>stakeObligationQuick\<close>: for a
  locked position with no unstake queued earlier it emits nothing. The code does not do
  this. Its callback is \<open>async\<close>, so \<open>find\<close> returns the first transaction of any
  non-empty block. In the concrete environment, with the locked position \<open>0xP\<close> and a
  block that holds one transfer and no unstake call, \<open>stakeObligationQuick\<close> leaves the
  block unchanged and \<open>stakeObligationWithVeScaQuick\<close> appends a call.
\<close>

theorem stakeObligationWithVeScaQuick_gate_divergence:
  "\<not> list_ex (unstake_target demo_env) [OtherTransaction ''TransferObjects'']
   \<and> fst (requireObligationInfo demo_env
        (demo_block\<lparr>transactions := [OtherTransaction ''TransferObjects'']\<rparr>) None None)
     = Inr \<lparr>obligationId = ''0xP'', obligationKey = ''0xK'', obligationLocked = True\<rparr>
   \<and> stakeObligationQuick demo_env
        (demo_block\<lparr>transactions := [OtherTransaction ''TransferObjects'']\<rparr>) None None
     = (Inr (), demo_block\<lparr>transactions := [OtherTransaction ''TransferObjects'']\<rparr>,
        [GetObligations ''0xA''])
   \<and> stakeObligationWithVeScaQuick demo_env
        (demo_block\<lparr>transactions := [OtherTransaction ''TransferObjects'']\<rparr>) None None None
     = (Inr (),
        demo_block\<lparr>transactions :=
          [OtherTransaction ''TransferObjects'',
           MoveCall ''<borrowIncentive.id>::user::stake_with_ve_sca''
             [''<borrowIncentive.config>'', ''<borrowIncentive.incentivePools>'',
              ''<borrowIncentive.incentiveAccounts>'', ''0xK'', ''0xP'',
              ''<core.obligationAccessStore>'', ''<vesca.config>'',
              ''<vesca.treasury>'', ''<vesca.table>'', ''0xV'', ''0x6'']
             []]\<rparr>,
        [GetObligations ''0xA'', GetBindedVeScaKey ''0xP''])"
  by (simp add: stakeObligationWithVeScaQuick_def stakeObligationQuick_def
      requireObligationInfo_def demo_simps matches_def info_of_def unstake_target_def
      promise_truthy_def stakeObligationWithVesca_def builder_simps)

theorem stakeObligationWithVeScaQuick_gate_divergence_witness:
  "transactions (fst (snd (stakeObligationQuick demo_env
      (demo_block\<lparr>transactions := [OtherTransaction ''TransferObjects'']\<rparr>) None None)))
     = [OtherTransaction ''TransferObjects'']
   \<and> length (transactions (fst (snd (stakeObligationWithVeScaQuick demo_env
      (demo_block\<lparr>transactions := [OtherTransaction ''TransferObjects'']\<rparr>) None None None))))
     = 2"
  using stakeObligationWithVeScaQuick_gate_divergence by (simp add: demo_simps)

text \<open>
  Claim C2, as stated, fails where the stake is not triggered. In the concrete
  environment the position \<open>0xP\<close> is locked and bound to \<open>0xV\<close>, the block is empty and the
  caller supplies \<open>0xW\<close>: the operation succeeds, looks no binding up and appends nothing.
\<close>

theorem stakeObligationWithVeScaQuick_mismatch_counterexample:
  "fst (requireObligationInfo demo_env demo_block None None)
     = Inr \<lparr>obligationId = ''0xP'', obligationKey = ''0xK'', obligationLocked = True\<rparr>
   \<and> getBindedVeScaKey demo_env ''0xP'' = Some ''0xV''
   \<and> stakeObligationWithVeScaQuick demo_env demo_block None None (Some ''0xW'')
     = (Inr (), demo_block, [GetObligations ''0xA''])"
  by (simp add: stakeObligationWithVeScaQuick_def requireObligationInfo_def demo_simps
      matches_def info_of_def)

text \<open>
  Claim C2, amended. Let \<open>stakeObligationWithVeScaQuick\<close> resolve the position to \<open>info\<close>,
  and let the position be unlocked or a call that targets an unstake function be queued
  in the block. If the caller supplies a non-empty veSCA key that differs from the
  binding resolved for the position, the operation fails with \<open>BindingMismatch\<close> and the
  block is unchanged.
\<close>

theorem stakeObligationWithVeScaQuick_mismatch:
  assumes "requireObligationInfo e tx ob obk = (Inr info, qs)"
    and "k \<noteq> []"
    and "Some k \<noteq> getBindedVeScaKey e (obligationId info)"
    and "\<not> obligationLocked info \<or> list_ex (unstake_target e) (transactions tx)"
  shows "stakeObligationWithVeScaQuick e tx ob obk (Some k) =
           (Inl BindingMismatch, tx, qs @ [GetBindedVeScaKey (obligationId info)])"
proof -
  from assms(4) have "\<not> obligationLocked info \<or> transactions tx \<noteq> []"
    by auto
  then have gate: "\<not> obligationLocked info \<or>
      find (\<lambda>txn. promise_truthy (unstake_target e txn)) (transactions tx) \<noteq> None"
    using find_promise_truthy [of "unstake_target e" "transactions tx"] by blast
  show ?thesis
    using assms(1-3) gate
    by (simp add: stakeObligationWithVeScaQuick_def Let_def)
qed

theorem stakeObligationWithVeScaQuick_mismatch_witness:
  "stakeObligationWithVeScaQuick demo_env demo_block (Some ''0xQ'') None (Some ''0xW'')
     = (Inl BindingMismatch, demo_block, [GetObligations ''0xA'', GetBindedVeScaKey ''0xQ''])
   \<and> unstakeObligation demo_env (Some ''0xP'') (Some ''0xK'') demo_block
     = Inr (demo_block\<lparr>transactions := [demo_unstake ''0xK'' ''0xP'']\<rparr>)
   \<and> stakeObligationWithVeScaQuick demo_env
        (demo_block\<lparr>transactions := [demo_unstake ''0xK'' ''0xP'']\<rparr>)
        None None (Some ''0xW'')
     = (Inl BindingMismatch,
        demo_block\<lparr>transactions := [demo_unstake ''0xK'' ''0xP'']\<rparr>,
        [GetObligations ''0xA'', GetBindedVeScaKey ''0xP''])"
proof -
  let ?P = "\<lparr>obligationId = ''0xP'', obligationKey = ''0xK'', obligationLocked = True\<rparr>"
  let ?Q = "\<lparr>obligationId = ''0xQ'', obligationKey = ''0xL'', obligationLocked = False\<rparr>"
  let ?u = "demo_block\<lparr>transactions := [demo_unstake ''0xK'' ''0xP'']\<rparr>"
  have rq: "requireObligationInfo demo_env demo_block (Some ''0xQ'') None
              = (Inr ?Q, [GetObligations ''0xA''])"
    by (simp add: requireObligationInfo_def demo_simps matches_def info_of_def)
  have ru: "requireObligationInfo demo_env ?u None None = (Inr ?P, [GetObligations ''0xA''])"
    by (simp add: requireObligationInfo_def demo_simps matches_def info_of_def)
  have built: "unstakeObligation demo_env (Some ''0xP'') (Some ''0xK'') demo_block = Inr ?u"
    by (simp add: unstakeObligation_def builder_simps demo_simps demo_calls)
  have w: "''0xW'' \<noteq> []"
    by simp
  have dq: "Some ''0xW'' \<noteq> getBindedVeScaKey demo_env (obligationId ?Q)"
    by (simp add: demo_simps)
  have dp: "Some ''0xW'' \<noteq> getBindedVeScaKey demo_env (obligationId ?P)"
    by (simp add: demo_simps)
  have gq: "\<not> obligationLocked ?Q \<or> list_ex (unstake_target demo_env) (transactions demo_block)"
    by simp
  have gu: "\<not> obligationLocked ?P \<or> list_ex (unstake_target demo_env) (transactions ?u)"
    by (simp add: unstake_target_def demo_simps demo_calls)
  show ?thesis
    using stakeObligationWithVeScaQuick_mismatch [OF rq w dq gq]
      stakeObligationWithVeScaQuick_mismatch [OF ru w dp gu] built
    by simp
qed

lemma claimBorrowIncentiveQuick_passes_through:
  "claimBorrowIncentiveQuick e tx rewardCoinName (Some i) (Some k) =
     Inr (length (transactions tx),
      tx\<lparr>transactions := transactions tx @
        [MoveCall (address_get e ''borrowIncentive.id'' @ ''::user::redeem_rewards'')
           [address_get e ''borrowIncentive.config'',
            address_get e ''borrowIncentive.incentivePools'',
            address_get e ''borrowIncentive.incentiveAccounts'',
            k, i, SUI_CLOCK_OBJECT_ID e]
           [parseCoinType e rewardCoinName]]\<rparr>)"
  by (simp add: claimBorrowIncentiveQuick_def claimBorrowIncentive_def builder_simps)

lemma claimBorrowIncentiveQuick_undefined:
  "ob = None \<or> obk = None \<Longrightarrow> claimBorrowIncentiveQuick e tx rewardCoinName ob obk = Inl TypeError"
  by (cases ob; cases obk)
     (simp_all add: claimBorrowIncentiveQuick_def claimBorrowIncentive_def builder_simps)

text \<open>
  Claim C5. \<open>claimBorrowIncentiveQuick\<close> first resolves the caller's position and then
  emits one claim call. The code resolves nothing: it issues no query and hands its two
  optional parameters to \<open>claimBorrowIncentive\<close> as they are. In the concrete environment
  the resolver gives the position \<open>0xP\<close> with key \<open>0xK\<close> both when the caller names no
  position and when the caller names the id \<open>0xP\<close> alone; on the same inputs
  \<open>claimBorrowIncentiveQuick\<close> fails with a TypeError and queues no call.
\<close>

theorem claimBorrowIncentiveQuick_unresolved:
  "requireObligationInfo demo_env demo_block None None
     = (Inr \<lparr>obligationId = ''0xP'', obligationKey = ''0xK'', obligationLocked = True\<rparr>,
        [GetObligations ''0xA''])
   \<and> claimBorrowIncentiveQuick demo_env demo_block ''sui'' None None = Inl TypeError
   \<and> requireObligationInfo demo_env demo_block (Some ''0xP'') None
     = (Inr \<lparr>obligationId = ''0xP'', obligationKey = ''0xK'', obligationLocked = True\<rparr>,
        [GetObligations ''0xA''])
   \<and> claimBorrowIncentiveQuick demo_env demo_block ''sui'' (Some ''0xP'') None = Inl TypeError"
  by (simp add: claimBorrowIncentiveQuick_def claimBorrowIncentive_def builder_simps
      requireObligationInfo_def demo_simps matches_def info_of_def)

section \<open>Properties of the intention codec\<close>

lemma json_unescape_escape:
  "json_unescape (json_escape s @ CHR 0x22 # rest) = Some (s, rest)"
  by (induction s) auto

lemma parse_amount_encode: "parse_amount (encode x) = Some (amount x)"
proof -
  have "json_unescape (json_escape (amount x) @ CHR 0x22 # ''}'') = Some (amount x, ''}'')"
    by (rule json_unescape_escape)
  then show ?thesis
    by (simp add: parse_amount_def encode_def)
qed

text \<open>
  Claim C4. For every intent \<open>x\<close> of the action kinds mint and redeem, building a batch
  from the encoding of \<open>x\<close> succeeds and decoding that batch gives \<open>x\<close> back, provided the
  two kinds have different targets; and the encoding of the amount \<open>10000000\<close> is the
  text \<open>{"amount":"10000000"}\<close>.
\<close>

theorem codec_round_trip:
  assumes "target_of Mint \<noteq> target_of Redeem"
  shows \<open>(\<exists>tx. buildFrom target_of (action x) (encode x) = Inr tx
                \<and> decode target_of tx = Inr x)
         \<and> encode \<lparr>action = k, amount = ''10000000''\<rparr> = ''{"amount":"10000000"}''\<close>
proof
  have "decode target_of
          \<lparr>sender = None, transactions = [MoveCall (target_of (action x)) [amount x] []]\<rparr>
        = Inr x"
    using assms by (cases "action x") (auto simp: decode_def)
  then show "\<exists>tx. buildFrom target_of (action x) (encode x) = Inr tx
                \<and> decode target_of tx = Inr x"
    by (simp add: buildFrom_def parse_amount_encode)
  show \<open>encode \<lparr>action = k, amount = ''10000000''\<rparr> = ''{"amount":"10000000"}''\<close>
    by (simp add: encode_def)
qed


theorem codec_round_trip_witness:
  \<open>demo_target_of Mint \<noteq> demo_target_of Redeem
   \<and> encode \<lparr>action = Redeem, amount = ''10000000''\<rparr> = ''{"amount":"10000000"}''
   \<and> (\<exists>tx. buildFrom demo_target_of Redeem ''{"amount":"10000000"}'' = Inr tx
          \<and> decode demo_target_of tx = Inr \<lparr>action = Redeem, amount = ''10000000''\<rparr>)\<close>
proof -
  have d: "demo_target_of Mint \<noteq> demo_target_of Redeem"
    by (simp add: demo_target_of_def)
  have e: \<open>encode \<lparr>action = Redeem, amount = ''10000000''\<rparr> = ''{"amount":"10000000"}''\<close>
    by (simp add: encode_def)
  show ?thesis
    using d codec_round_trip [OF d, where x = "\<lparr>action = Redeem, amount = ''10000000''\<rparr>"] e
    by simp
qed

end
